theory Spec2Isabelle
  imports Complex_Main "HOL-Library.Signed_Division"
begin

section \<open>The arbitrary-precision kernel and the word bounds\<close>

text \<open>
  Modelled from the spec: the kernel type \<open>BigInt\<close> of \<open>natalie/big_int.hpp\<close>, which is not
  among the sources. The spec calls it an opaque big-integer value of unbounded magnitude with
  add, sub, mul, div, negate and an ordering, so a kernel value is a mathematical integer and
  its comparisons are the order of the integers.
\<close>

type_synonym BigInt = int

text \<open>
  Modelled from the spec: the macros \<open>NAT_INT_MAX\<close> and \<open>NAT_INT_MIN\<close>, which the sources use
  and do not define. The spec gives the range as the native machine-word signed range and
  names 9223372036854775807 as its upper end, so the bounds are those of a 64-bit signed word.
\<close>

definition NAT_INT_MAX :: int where
  "NAT_INT_MAX = 9223372036854775807"

definition NAT_INT_MIN :: int where
  "NAT_INT_MIN = - 9223372036854775808"

text \<open>\<open>static inline const BigInt MAX_INT = NAT_INT_MAX;\<close> and its sibling.\<close>

definition MAX_INT :: BigInt where
  "MAX_INT = NAT_INT_MAX"

definition MIN_INT :: BigInt where
  "MIN_INT = NAT_INT_MIN"

section \<open>The store of kernel values and the Extended object\<close>

text \<open>
  \<open>m_bigint\<close> is a \<open>BigInt *\<close>: an address, or \<open>nullptr\<close>. The store maps the addresses that
  hold a live kernel value to that value. Reading through a null or a dead pointer, and
  deleting a dead one, are undefined in C++; the model returns a fault there.
\<close>

type_synonym addr = nat

type_synonym heap = "addr \<rightharpoonup> BigInt"

datatype fault = Invalid_Read | Invalid_Delete

text \<open>
  The class \<open>BignumObject\<close>: the inherited integer field of \<open>IntegerObject\<close>, which the
  constructors initialise through \<open>IntegerObject { -1 }\<close>, and the private \<open>m_bigint\<close>
  (\<open>None\<close> is \<open>nullptr\<close>, the member's default initialiser).
\<close>

record BignumObject =
  m_integer :: int
  m_bigint :: "addr option"

text \<open>\<open>*p\<close> for a \<open>BigInt *p\<close>.\<close>

definition deref :: "heap \<Rightarrow> addr option \<Rightarrow> fault + BigInt" where
  "deref h p = (case p of
       None \<Rightarrow> Inl Invalid_Read
     | Some a \<Rightarrow> (case h a of None \<Rightarrow> Inl Invalid_Read | Some v \<Rightarrow> Inr v))"

text \<open>
  \<open>new BigInt(v)\<close>: the allocator hands out the address \<open>q\<close> and the new kernel value is
  constructed there. Which address it is belongs to the allocator; the theorems that need it
  assume what every allocator guarantees, that \<open>q\<close> holds no live value.
\<close>

definition new_BigInt :: "addr \<Rightarrow> BigInt \<Rightarrow> heap \<Rightarrow> heap" where
  "new_BigInt q v h = h(q \<mapsto> v)"

text \<open>\<open>delete p\<close> for a non-null \<open>p\<close>.\<close>

definition delete_BigInt :: "addr \<Rightarrow> heap \<Rightarrow> fault + heap" where
  "delete_BigInt p h = (case h p of None \<Rightarrow> Inl Invalid_Delete | Some v \<Rightarrow> Inr (h(p := None)))"

subsection \<open>Constructors\<close>

text \<open>
  \<open>BignumObject(const String &num)\<close>. The kernel's conversion from a numeral string is not
  among the sources and is the parameter \<open>BigInt_of_String\<close>.
\<close>

definition BignumObject_String ::
    "(string \<Rightarrow> BigInt) \<Rightarrow> addr \<Rightarrow> string \<Rightarrow> heap \<Rightarrow> BignumObject \<times> heap" where
  "BignumObject_String BigInt_of_String q num h =
     (\<lparr>m_integer = - 1, m_bigint = Some q\<rparr>, new_BigInt q (BigInt_of_String num) h)"

text \<open>
  \<open>BignumObject(const BigInt &other)\<close>. The argument is a reference: \<open>other\<close> is the address
  of the source kernel value, which \<open>new BigInt(other)\<close> copies.
\<close>

definition BignumObject_BigInt :: "addr \<Rightarrow> addr \<Rightarrow> heap \<Rightarrow> fault + BignumObject \<times> heap" where
  "BignumObject_BigInt q other h =
     (case deref h (Some other) of
        Inl f \<Rightarrow> Inl f
      | Inr v \<Rightarrow> Inr (\<lparr>m_integer = - 1, m_bigint = Some q\<rparr>, new_BigInt q v h))"

text \<open>
  \<open>BignumObject(const double &num)\<close>. The kernel's conversion from a double is not among the
  sources and is the parameter \<open>BigInt_of_double\<close>, over any type \<open>'d\<close> of doubles.
\<close>

definition BignumObject_double ::
    "('d \<Rightarrow> BigInt) \<Rightarrow> addr \<Rightarrow> 'd \<Rightarrow> heap \<Rightarrow> BignumObject \<times> heap" where
  "BignumObject_double BigInt_of_double q num h =
     (\<lparr>m_integer = - 1, m_bigint = Some q\<rparr>, new_BigInt q (BigInt_of_double num) h)"

subsection \<open>Destructor\<close>

text \<open>
  \<open>~BignumObject() { if (m_bigint) delete m_bigint; }\<close>. The body assigns to no member, so
  the object is returned as it was, next to the store after the \<open>delete\<close>.
\<close>

definition destroy_BignumObject :: "heap \<Rightarrow> BignumObject \<Rightarrow> fault + BignumObject \<times> heap" where
  "destroy_BignumObject h this =
     (case m_bigint this of
        None \<Rightarrow> Inr (this, h)
      | Some p \<Rightarrow> (case delete_BigInt p h of Inl f \<Rightarrow> Inl f | Inr h' \<Rightarrow> Inr (this, h')))"

subsection \<open>Queries\<close>

text \<open>\<open>BigInt to_bigint() const { return *m_bigint; }\<close>: a copy of the kernel value.\<close>

definition to_bigint :: "heap \<Rightarrow> BignumObject \<Rightarrow> fault + BigInt" where
  "to_bigint h this = deref h (m_bigint this)"

definition is_bignum :: "BignumObject \<Rightarrow> bool" where
  "is_bignum this = True"

text \<open>\<open>return *m_bigint > MAX_INT || *m_bigint < MIN_INT;\<close>\<close>

definition has_to_be_bignum :: "heap \<Rightarrow> BignumObject \<Rightarrow> fault + bool" where
  "has_to_be_bignum h this =
     (case deref h (m_bigint this) of
        Inl f \<Rightarrow> Inl f
      | Inr b \<Rightarrow> Inr (b > MAX_INT \<or> b < MIN_INT))"

text \<open>
  \<open>last_char() - '0'\<close>: both characters are promoted to \<open>int\<close> and subtracted. The byte is
  read as unsigned; where \<open>char\<close> is signed a byte above 127 is 256 less, which leaves the
  parity that \<open>is_odd\<close> computes as it is, and the digits are below 128 either way.
\<close>

definition char_minus_zero :: "char \<Rightarrow> int" where
  "char_minus_zero c = int (of_char c) - int (of_char CHR ''0'')"

text \<open>
  \<open>is_odd\<close>. The kernel's \<open>to_string\<close> is not among the sources and is the parameter
  \<open>to_string\<close>. \<open>%\<close> on \<open>int\<close> truncates towards zero: it is \<open>smod\<close>, not \<open>mod\<close>.
\<close>

definition is_odd :: "(BigInt \<Rightarrow> string) \<Rightarrow> heap \<Rightarrow> BignumObject \<Rightarrow> fault + bool" where
  "is_odd to_string h this =
     (case deref h (m_bigint this) of
        Inl f \<Rightarrow> Inl f
      | Inr b \<Rightarrow>
          Inr (if length (to_string b) \<noteq> 0
               then (let last_digit = char_minus_zero (last (to_string b));
                         is_odd = (last_digit smod 2 \<noteq> 0)
                     in is_odd)
               else True))"

subsection \<open>The inspection hook\<close>

text \<open>
  The C library's \<open>snprintf(buf, len, ...)\<close>, as the bytes it stores into \<open>buf\<close>: nothing
  when \<open>len\<close> is 0, and otherwise the first \<open>len - 1\<close> characters of the formatted output
  followed by a terminating NUL.
\<close>

definition snprintf :: "nat \<Rightarrow> string \<Rightarrow> string" where
  "snprintf len formatted = (if len = 0 then [] else take (len - 1) formatted @ [CHR 0x00])"

text \<open>\<open>%s\<close> prints a C string: the characters before the first NUL.\<close>

definition c_str :: "string \<Rightarrow> string" where
  "c_str s = takeWhile (\<lambda>c. c \<noteq> CHR 0x00) s"

text \<open>
  \<open>snprintf(buf, len, "<IntegerObject %p bignum=%s>", this, m_bigint->to_string().c_str())\<close>.
  The rendering of \<open>%p\<close> is implementation-defined and is the parameter \<open>render_pointer\<close>;
  \<open>this_addr\<close> is the address of the object. The result is what the call stores into \<open>buf\<close>.
\<close>

definition gc_inspect ::
    "(addr \<Rightarrow> string) \<Rightarrow> (BigInt \<Rightarrow> string) \<Rightarrow> heap \<Rightarrow> addr \<Rightarrow> BignumObject \<Rightarrow> nat
       \<Rightarrow> fault + string" where
  "gc_inspect render_pointer to_string h this_addr this len =
     (case deref h (m_bigint this) of
        Inl f \<Rightarrow> Inl f
      | Inr b \<Rightarrow>
          Inr (snprintf len
                 (''<IntegerObject '' @ render_pointer this_addr @ '' bignum=''
                    @ c_str (to_string b) @ ''>'')))"

subsection \<open>The canonical string form\<close>

text \<open>
  Modelled from the spec: the kernel's canonical base-10 rendering (\<open>BigInt::to_string\<close>, not
  among the sources): the decimal digits of the magnitude, most significant first, after a
  minus sign for a negative value.
\<close>

fun decimal_digits :: "nat \<Rightarrow> string" where
  "decimal_digits n =
     (if n < 10 then [char_of (48 + n)]
      else decimal_digits (n div 10) @ [char_of (48 + n mod 10)])"

declare decimal_digits.simps [simp del]

definition canonical_string :: "BigInt \<Rightarrow> string" where
  "canonical_string b =
     (if b < 0 then CHR ''-'' # decimal_digits (nat (- b)) else decimal_digits (nat b))"

section \<open>The top level: \<open>EVAL\<close> and \<open>main\<close>\<close>

text \<open>
  The statements that the compiler puts in place of \<open>/*NAT_EVAL_BODY*/\<close> are not part of the
  file. Inside the \<open>try\<close> block they can throw an \<open>ExceptionObject *\<close>, execute a \<open>return\<close> of
  an \<open>Object *\<close>, or run to their end. \<open>'e\<close> is the type of exception objects.
\<close>

datatype 'e body_result = Raises 'e | Returns "addr option" | Falls_Through

text \<open>\<open>run_at_exit_handlers(env)\<close>, called inside the same \<open>try\<close> block, can throw as well.\<close>

datatype 'e handlers_result = Handlers_Raise 'e | Handlers_Done

text \<open>
  Modelled from the spec: \<open>handle_top_level_exception(env, exception, run_exit_handlers)\<close>,
  which is not among the sources. The spec says the top-level handler reports the exception;
  the model records the call, with the exception and the flag it was given, and returns, as
  the \<open>return nullptr\<close> after the call expects.

  \<open>EVAL\<close> gives the reports made and the \<open>Object *\<close> returned (\<open>None\<close> is \<open>nullptr\<close>).
  \<open>nil\<close> is the address \<open>NilObject::the()\<close> returns.
\<close>

definition EVAL ::
    "addr \<Rightarrow> 'e body_result \<Rightarrow> 'e handlers_result \<Rightarrow> ('e \<times> bool) list \<times> addr option" where
  "EVAL nil body at_exit =
     (case body of
        Raises exception \<Rightarrow> ([(exception, True)], None)
      | Returns v \<Rightarrow> ([], v)
      | Falls_Through \<Rightarrow>
          (case at_exit of
             Handlers_Raise exception \<Rightarrow> ([(exception, False)], None)
           | Handlers_Done \<Rightarrow> ([], Some nil)))"

text \<open>How the process ends: \<open>exit\<close> with a code, or \<open>abort\<close> from a failed \<open>assert\<close>.\<close>

datatype process_end = Exit int | Abort

text \<open>
  \<open>_main\<close>: after \<open>assert(argc > 0)\<close> it returns \<open>EVAL(env)\<close>. \<open>None\<close> is the failed
  assertion, which aborts the process before anything is evaluated.
\<close>

definition inner_main ::
    "int \<Rightarrow> addr \<Rightarrow> 'e body_result \<Rightarrow> 'e handlers_result
       \<Rightarrow> (('e \<times> bool) list \<times> addr option) option" where
  "inner_main argc nil body at_exit =
     (if argc > 0 then Some (EVAL nil body at_exit) else None)"

text \<open>
  Modelled from the spec: \<open>clean_up_and_exit(return_code)\<close>, which is not among the sources,
  ends the process with \<open>return_code\<close> as its exit status.

  \<open>main\<close> computes \<open>_main(argc, argv) ? 0 : 1\<close> and passes it on. The class \<open>Value\<close> that
  wraps the pointer on the way is declared outside the sources; its conversion to \<open>bool\<close> is
  taken to be the pointer's, true exactly when the pointer is not null.
\<close>

definition main_cpp ::
    "int \<Rightarrow> addr \<Rightarrow> 'e body_result \<Rightarrow> 'e handlers_result \<Rightarrow> ('e \<times> bool) list \<times> process_end" where
  "main_cpp argc nil body at_exit =
     (case inner_main argc nil body at_exit of
        None \<Rightarrow> ([], Abort)
      | Some (reports, v) \<Rightarrow> (reports, Exit (if v \<noteq> None then 0 else 1)))"

section \<open>The Integer Facade\<close>

text \<open>
  Modelled from the spec: the bodies of \<open>BignumObject::add\<close>, \<open>sub\<close>, \<open>mul\<close>, \<open>div\<close> and
  \<open>negate\<close> are not among the sources (the header only declares them), and neither are the
  Compact representation (\<open>natalie/integer_object.hpp\<close>) and the dispatch over the two. This
  section follows sections 3, 4.1, 4.2, 4.3 and 7 of the spec: an integer value is Compact or
  Extended; an Extended operation coerces its right-hand operand to a kernel value, computes
  in the kernel and applies the demotion policy to the result; a Compact operation computes
  natively and signals "promotion required" when the mathematical result leaves the word
  range; the Facade dispatches on the left operand and retries a Compact operation that
  asked for promotion as the Extended one; division floors and division by zero is a domain
  error.
\<close>

datatype Integer = Compact int | Extended BigInt

datatype domain_error = ZeroDivisionError

datatype compact_result = Fits int | Promotion_Required | Domain_Error domain_error

definition in_word_range :: "int \<Rightarrow> bool" where
  "in_word_range v = (NAT_INT_MIN \<le> v \<and> v \<le> NAT_INT_MAX)"

definition to_kernel :: "Integer \<Rightarrow> BigInt" where
  "to_kernel x = (case x of Compact n \<Rightarrow> n | Extended b \<Rightarrow> b)"

definition demote :: "BigInt \<Rightarrow> Integer" where
  "demote b = (if in_word_range b then Compact b else Extended b)"

definition Extended_add :: "BigInt \<Rightarrow> Integer \<Rightarrow> domain_error + Integer" where
  "Extended_add x arg = Inr (demote (x + to_kernel arg))"

definition Extended_sub :: "BigInt \<Rightarrow> Integer \<Rightarrow> domain_error + Integer" where
  "Extended_sub x arg = Inr (demote (x - to_kernel arg))"

definition Extended_mul :: "BigInt \<Rightarrow> Integer \<Rightarrow> domain_error + Integer" where
  "Extended_mul x arg = Inr (demote (x * to_kernel arg))"

definition Extended_div :: "BigInt \<Rightarrow> Integer \<Rightarrow> domain_error + Integer" where
  "Extended_div x arg =
     (if to_kernel arg = 0 then Inl ZeroDivisionError else Inr (demote (x div to_kernel arg)))"

definition Extended_mod :: "BigInt \<Rightarrow> Integer \<Rightarrow> domain_error + Integer" where
  "Extended_mod x arg =
     (if to_kernel arg = 0 then Inl ZeroDivisionError else Inr (demote (x mod to_kernel arg)))"

definition Extended_negate :: "BigInt \<Rightarrow> domain_error + Integer" where
  "Extended_negate x = Inr (demote (- x))"

definition checked :: "int \<Rightarrow> compact_result" where
  "checked r = (if in_word_range r then Fits r else Promotion_Required)"

definition Compact_add :: "int \<Rightarrow> int \<Rightarrow> compact_result" where
  "Compact_add a b = checked (a + b)"

definition Compact_sub :: "int \<Rightarrow> int \<Rightarrow> compact_result" where
  "Compact_sub a b = checked (a - b)"

definition Compact_mul :: "int \<Rightarrow> int \<Rightarrow> compact_result" where
  "Compact_mul a b = checked (a * b)"

definition Compact_div :: "int \<Rightarrow> int \<Rightarrow> compact_result" where
  "Compact_div a b = (if b = 0 then Domain_Error ZeroDivisionError else checked (a div b))"

definition Compact_mod :: "int \<Rightarrow> int \<Rightarrow> compact_result" where
  "Compact_mod a b = (if b = 0 then Domain_Error ZeroDivisionError else checked (a mod b))"

definition Compact_negate :: "int \<Rightarrow> compact_result" where
  "Compact_negate a = checked (- a)"

text \<open>
  The two-phase policy of section 4.3 for a binary operation: dispatch on the representation
  of the left operand; a Compact operation needs a Compact right operand and otherwise asks
  for promotion, as it does on overflow; promotion applies the Extended operation to the
  kernel value of the left operand.
\<close>

definition Facade_binary ::
    "(int \<Rightarrow> int \<Rightarrow> compact_result) \<Rightarrow> (BigInt \<Rightarrow> Integer \<Rightarrow> domain_error + Integer)
       \<Rightarrow> Integer \<Rightarrow> Integer \<Rightarrow> domain_error + Integer" where
  "Facade_binary compact_op extended_op x y =
     (case x of
        Extended bx \<Rightarrow> extended_op bx y
      | Compact a \<Rightarrow>
          (case (case y of Compact b \<Rightarrow> compact_op a b | Extended by \<Rightarrow> Promotion_Required) of
             Fits r \<Rightarrow> Inr (Compact r)
           | Domain_Error e \<Rightarrow> Inl e
           | Promotion_Required \<Rightarrow> extended_op a (Extended (to_kernel y))))"

definition Facade_add :: "Integer \<Rightarrow> Integer \<Rightarrow> domain_error + Integer" where
  "Facade_add = Facade_binary Compact_add Extended_add"

definition Facade_sub :: "Integer \<Rightarrow> Integer \<Rightarrow> domain_error + Integer" where
  "Facade_sub = Facade_binary Compact_sub Extended_sub"

definition Facade_mul :: "Integer \<Rightarrow> Integer \<Rightarrow> domain_error + Integer" where
  "Facade_mul = Facade_binary Compact_mul Extended_mul"

definition Facade_div :: "Integer \<Rightarrow> Integer \<Rightarrow> domain_error + Integer" where
  "Facade_div = Facade_binary Compact_div Extended_div"

definition Facade_mod :: "Integer \<Rightarrow> Integer \<Rightarrow> domain_error + Integer" where
  "Facade_mod = Facade_binary Compact_mod Extended_mod"

definition Facade_negate :: "Integer \<Rightarrow> domain_error + Integer" where
  "Facade_negate x =
     (case x of
        Extended bx \<Rightarrow> Extended_negate bx
      | Compact a \<Rightarrow>
          (case Compact_negate a of
             Fits r \<Rightarrow> Inr (Compact r)
           | Domain_Error e \<Rightarrow> Inl e
           | Promotion_Required \<Rightarrow> Extended_negate a))"

section \<open>Properties of the Extended object\<close>

subsection \<open>Reading the kernel value\<close>

lemma deref_Some: "h a = Some v \<Longrightarrow> deref h (Some a) = Inr v"
  by (simp add: deref_def)

lemma deref_Inr_iff: "deref h p = Inr v \<longleftrightarrow> (\<exists>a. p = Some a \<and> h a = Some v)"
  by (auto simp: deref_def split: option.splits)

lemma to_bigint_new: "to_bigint (new_BigInt q v h) \<lparr>m_integer = k, m_bigint = Some q\<rparr> = Inr v"
  by (simp add: to_bigint_def deref_def new_BigInt_def)

subsection \<open>The range predicate\<close>

text \<open>
  C1. For every Extended object whose kernel value is \<open>v\<close>, \<open>has_to_be_bignum\<close> returns true
  exactly when \<open>v\<close> lies outside the closed range from \<open>MIN_INT\<close> to \<open>MAX_INT\<close>, that is when
  \<open>v\<close> is greater than \<open>MAX_INT\<close> or less than \<open>MIN_INT\<close>, and false otherwise.
\<close>

theorem has_to_be_bignum_outside_word_range:
  "to_bigint h this = Inr v \<Longrightarrow> has_to_be_bignum h this = Inr (v \<notin> {MIN_INT..MAX_INT})"
  by (auto simp: to_bigint_def has_to_be_bignum_def)

theorem has_to_be_bignum_outside_word_range_witness:
  "to_bigint [0 \<mapsto> 9223372036854775808] \<lparr>m_integer = - 1, m_bigint = Some 0\<rparr>
     = Inr 9223372036854775808
   \<and> has_to_be_bignum [0 \<mapsto> 9223372036854775808] \<lparr>m_integer = - 1, m_bigint = Some 0\<rparr>
     = Inr True
   \<and> to_bigint [0 \<mapsto> 9223372036854775807] \<lparr>m_integer = - 1, m_bigint = Some 0\<rparr>
     = Inr 9223372036854775807
   \<and> has_to_be_bignum [0 \<mapsto> 9223372036854775807] \<lparr>m_integer = - 1, m_bigint = Some 0\<rparr>
     = Inr False"
proof -
  have a: "to_bigint [0 \<mapsto> 9223372036854775808] \<lparr>m_integer = - 1, m_bigint = Some 0\<rparr>
      = Inr 9223372036854775808"
    by (simp add: to_bigint_def deref_def)
  have b: "to_bigint [0 \<mapsto> 9223372036854775807] \<lparr>m_integer = - 1, m_bigint = Some 0\<rparr>
      = Inr 9223372036854775807"
    by (simp add: to_bigint_def deref_def)
  show ?thesis
    using a b has_to_be_bignum_outside_word_range [OF a] has_to_be_bignum_outside_word_range [OF b]
    by (simp add: MAX_INT_def MIN_INT_def NAT_INT_MAX_def NAT_INT_MIN_def)
qed

subsection \<open>Parity\<close>

text \<open>The truncating remainder by 2 is non-zero exactly on the odd integers, negative ones too.\<close>

lemma smod_two_odd: "(x smod 2 \<noteq> 0) = odd (x::int)"
  by (auto simp: signed_modulo_int_def mod_2_eq_odd sgn_if)

lemma char_minus_zero_digit: "d < 10 \<Longrightarrow> char_minus_zero (char_of (48 + d)) = int d"
  by (simp add: char_minus_zero_def)

text \<open>
  C2. For every Extended object with kernel value \<open>b\<close>, \<open>is_odd\<close> returns true exactly when the
  last character of the string form of \<open>b\<close>, read as a decimal digit, is odd; when the string
  form is empty it returns true. This holds for whatever string the kernel renders.
\<close>

theorem is_odd_last_decimal_digit:
  "to_bigint h this = Inr b \<Longrightarrow>
   is_odd to_string h this =
     Inr (if to_string b = [] then True else odd (char_minus_zero (last (to_string b))))"
  by (simp add: to_bigint_def is_odd_def smod_two_odd Let_def)

theorem is_odd_last_decimal_digit_witness:
  "to_bigint [0 \<mapsto> 27] \<lparr>m_integer = - 1, m_bigint = Some 0\<rparr> = Inr 27
   \<and> is_odd canonical_string [0 \<mapsto> 27] \<lparr>m_integer = - 1, m_bigint = Some 0\<rparr> = Inr True
   \<and> to_bigint [0 \<mapsto> - 10] \<lparr>m_integer = - 1, m_bigint = Some 0\<rparr> = Inr (- 10)
   \<and> is_odd canonical_string [0 \<mapsto> - 10] \<lparr>m_integer = - 1, m_bigint = Some 0\<rparr> = Inr False
   \<and> is_odd (\<lambda>b. []) [0 \<mapsto> - 10] \<lparr>m_integer = - 1, m_bigint = Some 0\<rparr> = Inr True"
proof -
  have a: "to_bigint [0 \<mapsto> 27] \<lparr>m_integer = - 1, m_bigint = Some 0\<rparr> = Inr 27"
    by (simp add: to_bigint_def deref_def)
  have b: "to_bigint [0 \<mapsto> - 10] \<lparr>m_integer = - 1, m_bigint = Some 0\<rparr> = Inr (- 10)"
    by (simp add: to_bigint_def deref_def)
  have c: "canonical_string 27 = ''27''" "canonical_string (- 10) = ''-10''"
    by code_simp+
  show ?thesis
    using a b
      is_odd_last_decimal_digit [OF a, of canonical_string]
      is_odd_last_decimal_digit [OF b, of canonical_string]
      is_odd_last_decimal_digit [OF b, of "\<lambda>b. []"]
    by (simp add: c char_minus_zero_def)
qed

text \<open>
  When the kernel renders the canonical base-10 form, \<open>is_odd\<close> is the parity of the value, the
  answer a Compact integer of the same value gives.
\<close>

lemma decimal_digits_nonempty: "decimal_digits n \<noteq> []"
  by (subst decimal_digits.simps) simp

lemma last_decimal_digits: "last (decimal_digits n) = char_of (48 + n mod 10)"
  by (subst decimal_digits.simps) simp

lemma canonical_string_nonempty: "canonical_string b \<noteq> []"
  by (simp add: canonical_string_def decimal_digits_nonempty)

lemma last_canonical_string: "last (canonical_string b) = char_of (48 + nat \<bar>b\<bar> mod 10)"
  by (simp add: canonical_string_def decimal_digits_nonempty last_decimal_digits)

lemma odd_last_digit: "odd (nat \<bar>b\<bar> mod 10) = odd (b::int)"
proof -
  have "nat \<bar>b\<bar> mod 10 mod 2 = nat \<bar>b\<bar> mod 2"
    by (simp add: mod_mod_cancel)
  then have "odd (nat \<bar>b\<bar> mod 10) = odd (nat \<bar>b\<bar>)"
    by (simp only: odd_iff_mod_2_eq_one)
  also have "\<dots> = odd \<bar>b\<bar>"
    by (simp add: even_nat_iff)
  finally show ?thesis by simp
qed

lemma is_odd_canonical_parity:
  assumes "to_bigint h this = Inr b"
  shows "is_odd canonical_string h this = Inr (odd b)"
proof -
  have "is_odd canonical_string h this
      = Inr (odd (char_minus_zero (last (canonical_string b))))"
    using assms
    by (simp add: to_bigint_def is_odd_def smod_two_odd Let_def canonical_string_nonempty)
  then show ?thesis
    by (simp add: last_canonical_string char_minus_zero_digit odd_last_digit)
qed

subsection \<open>The inherited integer field\<close>

text \<open>
  C10. Each of the three constructors (from a numeral string, from a kernel value, from a
  double) sets the inherited integer field to -1 and makes the object own a kernel value
  equal to the one constructed from its argument; and the value the object answers with
  (\<open>to_bigint\<close>, and \<open>has_to_be_bignum\<close>, \<open>is_odd\<close> and \<open>gc_inspect\<close> with it) does not
  depend on the inherited field.
\<close>

theorem constructors_set_sentinel:
  "m_integer (fst (BignumObject_String of_String q num h)) = - 1
   \<and> to_bigint (snd (BignumObject_String of_String q num h))
        (fst (BignumObject_String of_String q num h)) = Inr (of_String num)
   \<and> m_integer (fst (BignumObject_double of_double q d h)) = - 1
   \<and> to_bigint (snd (BignumObject_double of_double q d h))
        (fst (BignumObject_double of_double q d h)) = Inr (of_double d)
   \<and> (\<forall>this h'. BignumObject_BigInt q other h = Inr (this, h') \<longrightarrow>
         m_integer this = - 1 \<and> to_bigint h' this = deref h (Some other))
   \<and> to_bigint h0 (this0\<lparr>m_integer := k\<rparr>) = to_bigint h0 this0
   \<and> has_to_be_bignum h0 (this0\<lparr>m_integer := k\<rparr>) = has_to_be_bignum h0 this0
   \<and> is_odd to_string h0 (this0\<lparr>m_integer := k\<rparr>) = is_odd to_string h0 this0
   \<and> gc_inspect render_pointer to_string h0 a (this0\<lparr>m_integer := k\<rparr>) len
       = gc_inspect render_pointer to_string h0 a this0 len"
  by (auto simp: BignumObject_String_def BignumObject_double_def BignumObject_BigInt_def
      to_bigint_new to_bigint_def has_to_be_bignum_def is_odd_def gc_inspect_def
      deref_def new_BigInt_def split: sum.splits option.splits)

theorem constructors_set_sentinel_witness:
  "BignumObject_String (\<lambda>s. 18446744073709551616) 1 ''18446744073709551616'' [0 \<mapsto> 5]
     = (\<lparr>m_integer = - 1, m_bigint = Some 1\<rparr>, [0 \<mapsto> 5, 1 \<mapsto> 18446744073709551616])
   \<and> BignumObject_BigInt 1 0 [0 \<mapsto> 5]
     = Inr (\<lparr>m_integer = - 1, m_bigint = Some 1\<rparr>, [0 \<mapsto> 5, 1 \<mapsto> 5])
   \<and> m_integer \<lparr>m_integer = - 1, m_bigint = Some 1\<rparr> = - 1
   \<and> to_bigint [0 \<mapsto> 5, 1 \<mapsto> 5] \<lparr>m_integer = - 1, m_bigint = Some 1\<rparr> = Inr 5
   \<and> to_bigint [0 \<mapsto> 5, 1 \<mapsto> 5] \<lparr>m_integer = 7, m_bigint = Some 1\<rparr> = Inr 5"
proof -
  have c: "BignumObject_BigInt 1 0 [0 \<mapsto> 5]
      = Inr (\<lparr>m_integer = - 1, m_bigint = Some 1\<rparr>, [0 \<mapsto> 5, 1 \<mapsto> 5])"
    by (simp add: BignumObject_BigInt_def deref_def new_BigInt_def)
  have d: "deref [0 \<mapsto> 5] (Some 0) = Inr 5"
    by (simp add: deref_def)
  have e: "\<lparr>m_integer = - 1, m_bigint = Some (1::nat)\<rparr>\<lparr>m_integer := 7\<rparr>
      = \<lparr>m_integer = 7, m_bigint = Some 1\<rparr>"
    by simp
  show ?thesis
    using c d
      constructors_set_sentinel [where of_String = "\<lambda>s. 18446744073709551616" and q = 1
        and num = "''18446744073709551616''" and h = "[0 \<mapsto> 5]" and other = 0
        and ?h0.0 = "[0 \<mapsto> 5, 1 \<mapsto> 5]"
        and ?this0.0 = "\<lparr>m_integer = - 1, m_bigint = Some 1\<rparr>" and k = 7
        and of_double = "\<lambda>d::int. d" and d = 0 and to_string = canonical_string
        and render_pointer = "\<lambda>a. []" and a = 0 and len = 0]
    by (simp add: e BignumObject_String_def new_BigInt_def to_bigint_def deref_def)
qed

subsection \<open>Ownership of the kernel value\<close>

text \<open>
  C6. Constructing an Extended object from the kernel value at address \<open>other\<close>, with the
  allocator handing out an address \<open>q\<close> that holds no live value, allocates one new kernel
  value at \<open>q\<close>, different from \<open>other\<close>, holding the value of the source and owned by the new
  object; the source is left as it was. Mutating the source afterwards, or deleting it, does
  not change what the new object answers, and no object that owned a live kernel value before
  the construction shares its kernel value with the new object.
\<close>

theorem BignumObject_BigInt_no_alias:
  assumes fresh: "h q = None" and src: "h other = Some v"
  shows "\<exists>this h'. BignumObject_BigInt q other h = Inr (this, h')
     \<and> m_bigint this = Some q \<and> q \<noteq> other
     \<and> h' = h(q \<mapsto> v) \<and> h' other = Some v
     \<and> to_bigint h' this = Inr v
     \<and> (\<forall>w. to_bigint (h'(other \<mapsto> w)) this = Inr v)
     \<and> (\<exists>h''. delete_BigInt other h' = Inr h'' \<and> h'' other = None \<and> to_bigint h'' this = Inr v)
     \<and> (\<forall>that u. to_bigint h that = Inr u \<longrightarrow> m_bigint that \<noteq> m_bigint this)"
proof -
  from fresh src have ne: "q \<noteq> other" by auto
  show ?thesis
    using fresh src ne
    by (auto simp: BignumObject_BigInt_def deref_def new_BigInt_def to_bigint_def
        delete_BigInt_def split: option.splits)
qed

theorem BignumObject_BigInt_no_alias_witness:
  "[0 \<mapsto> 5] (1::nat) = (None :: int option) \<and> [0 \<mapsto> 5] (0::nat) = Some (5::int)
   \<and> (\<exists>this h'. BignumObject_BigInt 1 0 [0 \<mapsto> 5] = Inr (this, h')
     \<and> m_bigint this = Some 1 \<and> (1::nat) \<noteq> 0
     \<and> h' = [0 \<mapsto> 5, 1 \<mapsto> 5] \<and> h' 0 = Some 5
     \<and> to_bigint h' this = Inr 5
     \<and> (\<forall>w. to_bigint (h'(0 \<mapsto> w)) this = Inr 5)
     \<and> (\<exists>h''. delete_BigInt 0 h' = Inr h'' \<and> h'' 0 = None \<and> to_bigint h'' this = Inr 5)
     \<and> (\<forall>that u. to_bigint [0 \<mapsto> 5] that = Inr u \<longrightarrow> m_bigint that \<noteq> m_bigint this))"
proof -
  have a: "[0 \<mapsto> 5] (1::nat) = (None :: int option)" by simp
  have b: "[0 \<mapsto> 5] (0::nat) = Some (5::int)" by simp
  note c = BignumObject_BigInt_no_alias [OF a b]
  show ?thesis
    by (intro conjI a b c)
qed

subsection \<open>Destruction\<close>

text \<open>
  C5 as the spec states it does not hold: the destructor leaves \<open>m_bigint\<close> as it is, so a
  second invocation on the same object finds the pointer non-null and deletes it again. Here
  the first invocation releases the kernel value at address 0 and the second one is a
  \<open>delete\<close> of that address once more.
\<close>

theorem destructor_twice_counterexample:
  "destroy_BignumObject [0 \<mapsto> 5] \<lparr>m_integer = - 1, m_bigint = Some 0\<rparr>
     = Inr (\<lparr>m_integer = - 1, m_bigint = Some 0\<rparr>, Map.empty)
   \<and> destroy_BignumObject Map.empty \<lparr>m_integer = - 1, m_bigint = Some 0\<rparr> = Inl Invalid_Delete"
  by (simp add: destroy_BignumObject_def delete_BigInt_def)

text \<open>
  C5, as amended. Destroying an Extended object whose kernel value is live releases exactly
  that kernel value and leaves the object's pointer and every other kernel value as they
  were; destroying an object whose pointer is null does nothing. The destructor is not
  idempotent: invoked again on the same object it deletes the same address a second time,
  as it does on any object whose pointer is not null and holds no live value.
\<close>

theorem destructor_releases_owned_kernel:
  "(m_bigint this = None \<longrightarrow> destroy_BignumObject h this = Inr (this, h))
   \<and> (m_bigint this = Some p \<and> h p = Some v \<longrightarrow>
        destroy_BignumObject h this = Inr (this, h(p := None))
        \<and> destroy_BignumObject (h(p := None)) this = Inl Invalid_Delete)
   \<and> (m_bigint this = Some p \<and> h p = None \<longrightarrow> destroy_BignumObject h this = Inl Invalid_Delete)"
  by (simp add: destroy_BignumObject_def delete_BigInt_def)

theorem destructor_releases_owned_kernel_witness:
  "m_bigint \<lparr>m_integer = - 1, m_bigint = Some 3\<rparr> = Some 3
   \<and> [0 \<mapsto> 5, 3 \<mapsto> 42] (3::nat) = Some (42::int)
   \<and> destroy_BignumObject [0 \<mapsto> 5, 3 \<mapsto> 42] \<lparr>m_integer = - 1, m_bigint = Some 3\<rparr>
       = Inr (\<lparr>m_integer = - 1, m_bigint = Some 3\<rparr>, [0 \<mapsto> 5, 3 \<mapsto> 42](3 := None))
   \<and> destroy_BignumObject ([0 \<mapsto> 5, 3 \<mapsto> 42](3 := None)) \<lparr>m_integer = - 1, m_bigint = Some 3\<rparr>
       = Inl Invalid_Delete
   \<and> m_bigint \<lparr>m_integer = - 1, m_bigint = None\<rparr> = None
   \<and> destroy_BignumObject [0 \<mapsto> 5] \<lparr>m_integer = - 1, m_bigint = None\<rparr>
       = Inr (\<lparr>m_integer = - 1, m_bigint = None\<rparr>, [0 \<mapsto> 5])"
  using destructor_releases_owned_kernel
      [of "\<lparr>m_integer = - 1, m_bigint = Some 3\<rparr>" "[0 \<mapsto> 5, 3 \<mapsto> 42]" 3 42]
    destructor_releases_owned_kernel
      [of "\<lparr>m_integer = - 1, m_bigint = None\<rparr>" "[0 \<mapsto> 5]" 0 0]
  by simp

text \<open>
  A constructed object destroyed once gives the store back as it was before the construction.
\<close>

lemma destroy_after_construction:
  assumes "h q = None"
  shows "destroy_BignumObject (snd (BignumObject_String of_String q num h))
           (fst (BignumObject_String of_String q num h))
         = Inr (fst (BignumObject_String of_String q num h), h)"
proof -
  have "(h(q \<mapsto> of_String num))(q := None) = h"
    using assms by (simp add: fun_upd_idem)
  then show ?thesis
    by (simp add: BignumObject_String_def destroy_BignumObject_def delete_BigInt_def
        new_BigInt_def)
qed

subsection \<open>The inspection hook\<close>

text \<open>
  What \<open>gc_inspect\<close> stores into the buffer is never longer than \<open>len\<close>; it is the diagnostic
  string cut to \<open>len - 1\<close> characters and a NUL, and the whole of it when \<open>len\<close> exceeds its
  length.
\<close>

lemma length_snprintf: "length (snprintf len s) \<le> len"
  by (auto simp: snprintf_def)

lemma gc_inspect_within_len:
  "gc_inspect render_pointer to_string h a this len = Inr written \<Longrightarrow> length written \<le> len"
  by (auto simp: gc_inspect_def length_snprintf split: sum.splits)

lemma gc_inspect_complete:
  assumes "to_bigint h this = Inr b"
    and "length (''<IntegerObject '' @ render_pointer a @ '' bignum='' @ c_str (to_string b) @ ''>'')
          < len"
  shows "gc_inspect render_pointer to_string h a this len
    = Inr (''<IntegerObject '' @ render_pointer a @ '' bignum='' @ c_str (to_string b) @ ''>''
           @ [CHR 0x00])"
  using assms by (simp add: gc_inspect_def to_bigint_def snprintf_def)

section \<open>Properties of the top level\<close>

text \<open>
  C9. With \<open>argc > 0\<close>: when the program body raises an exception, the top-level handler is
  called with it (and with the flag still true) and the exit code is 1; the same holds, with
  the flag false, when the body runs to its end and an at-exit handler raises; when the body
  and the at-exit handlers complete, or the body returns an object, nothing is reported and
  the exit code is 0. (A body returning a null pointer would return no value of the language
  and is not covered.)
\<close>

theorem main_exit_code:
  assumes "argc > 0"
  shows "main_cpp argc nil (Raises e) at_exit = ([(e, True)], Exit 1)
    \<and> main_cpp argc nil Falls_Through (Handlers_Raise e) = ([(e, False)], Exit 1)
    \<and> main_cpp argc nil Falls_Through (Handlers_Done :: 'e handlers_result) = ([], Exit 0)
    \<and> main_cpp argc nil (Returns (Some obj)) at_exit = ([], Exit 0)"
  using assms by (simp add: main_cpp_def inner_main_def EVAL_def)

theorem main_exit_code_witness:
  "(1::int) > 0
   \<and> main_cpp 1 0 (Raises ''ZeroDivisionError'') Handlers_Done
       = ([(''ZeroDivisionError'', True)], Exit 1)
   \<and> main_cpp 1 0 Falls_Through (Handlers_Raise ''ZeroDivisionError'')
       = ([(''ZeroDivisionError'', False)], Exit 1)
   \<and> main_cpp 1 0 Falls_Through (Handlers_Done :: string handlers_result) = ([], Exit 0)
   \<and> main_cpp 1 0 (Returns (Some 4)) (Handlers_Done :: string handlers_result) = ([], Exit 0)"
proof -
  have a: "(1::int) > 0" by simp
  show ?thesis
    using a main_exit_code [OF a, of 0 "''ZeroDivisionError''" Handlers_Done 4] by simp
qed

section \<open>Properties of the Integer Facade\<close>

lemma to_kernel_simps: "to_kernel (Compact n) = n" "to_kernel (Extended v) = v"
  by (simp_all add: to_kernel_def)

lemma to_kernel_demote: "to_kernel (demote b) = b"
  by (simp add: demote_def to_kernel_def)

lemma Facade_binary_Extended: "Facade_binary c e (Extended x) arg = e x arg"
  by (simp add: Facade_binary_def)

text \<open>
  C3. Adding two Extended values through the Facade returns the Compact value of their sum
  when the sum lies in the word range, and an Extended value holding the sum otherwise. The
  Facade sends every operation on an Extended value to the Extended operation, and each of
  add, sub, mul, div (by a non-zero divisor) and negate returns a Compact value when the
  kernel result lies in the word range and an Extended value holding the kernel result
  otherwise.
\<close>

theorem extended_operations_demote:
  "Facade_add (Extended x) (Extended y)
     = Inr (if in_word_range (x + y) then Compact (x + y) else Extended (x + y))
   \<and> Facade_add (Extended x) arg = Extended_add x arg
   \<and> Facade_sub (Extended x) arg = Extended_sub x arg
   \<and> Facade_mul (Extended x) arg = Extended_mul x arg
   \<and> Facade_div (Extended x) arg = Extended_div x arg
   \<and> Facade_negate (Extended x) = Extended_negate x
   \<and> Extended_add x arg = Inr (if in_word_range (x + to_kernel arg)
        then Compact (x + to_kernel arg) else Extended (x + to_kernel arg))
   \<and> Extended_sub x arg = Inr (if in_word_range (x - to_kernel arg)
        then Compact (x - to_kernel arg) else Extended (x - to_kernel arg))
   \<and> Extended_mul x arg = Inr (if in_word_range (x * to_kernel arg)
        then Compact (x * to_kernel arg) else Extended (x * to_kernel arg))
   \<and> (to_kernel arg \<noteq> 0 \<longrightarrow>
        Extended_div x arg = Inr (if in_word_range (x div to_kernel arg)
          then Compact (x div to_kernel arg) else Extended (x div to_kernel arg)))
   \<and> Extended_negate x = Inr (if in_word_range (- x) then Compact (- x) else Extended (- x))"
  by (simp add: Facade_add_def Facade_sub_def Facade_mul_def Facade_div_def Facade_negate_def
      Facade_binary_Extended Extended_add_def Extended_sub_def Extended_mul_def Extended_div_def
      Extended_negate_def demote_def to_kernel_def)

theorem extended_operations_demote_witness:
  "Facade_add (Extended 9223372036854775808) (Extended (- 3)) = Inr (Compact 9223372036854775805)
   \<and> Facade_add (Extended 9223372036854775808) (Extended 3) = Inr (Extended 9223372036854775811)
   \<and> to_kernel (Compact 2) \<noteq> 0
   \<and> Extended_div 18446744073709551616 (Compact 2) = Inr (Extended 9223372036854775808)
   \<and> Extended_div 18446744073709551616 (Compact 4) = Inr (Compact 4611686018427387904)"
  using extended_operations_demote [of 9223372036854775808 "- 3" "Compact 2"]
    extended_operations_demote [of 9223372036854775808 3 "Compact 2"]
    extended_operations_demote [of 18446744073709551616 0 "Compact 2"]
    extended_operations_demote [of 18446744073709551616 0 "Compact 4"]
  by (simp add: to_kernel_simps in_word_range_def NAT_INT_MAX_def NAT_INT_MIN_def)

text \<open>
  C4. Dividing any integer value, Compact or Extended, by a value that is zero gives the
  domain error and no numeric result.
\<close>

theorem division_by_zero_is_domain_error:
  "to_kernel zero = 0 \<Longrightarrow> Facade_div x zero = Inl ZeroDivisionError"
  by (cases x; cases zero)
    (auto simp: Facade_div_def Facade_binary_def Extended_div_def Compact_div_def
      to_kernel_simps)

theorem division_by_zero_is_domain_error_witness:
  "to_kernel (Compact 0) = 0
   \<and> Facade_div (Compact 7) (Compact 0) = Inl ZeroDivisionError
   \<and> Facade_div (Extended 18446744073709551616) (Compact 0) = Inl ZeroDivisionError"
proof -
  have z: "to_kernel (Compact 0) = 0"
    by (simp add: to_kernel_simps)
  show ?thesis
    using z division_by_zero_is_domain_error [OF z, of "Compact 7"]
      division_by_zero_is_domain_error [OF z, of "Extended 18446744073709551616"]
    by simp
qed

lemma Facade_div_value:
  "to_kernel b \<noteq> 0 \<Longrightarrow> \<exists>q. Facade_div a b = Inr q \<and> to_kernel q = to_kernel a div to_kernel b"
  by (cases a; cases b)
    (auto simp: Facade_div_def Facade_binary_def Extended_div_def Compact_div_def checked_def
      to_kernel_demote to_kernel_simps)

lemma Facade_mod_value:
  "to_kernel b \<noteq> 0 \<Longrightarrow> \<exists>r. Facade_mod a b = Inr r \<and> to_kernel r = to_kernel a mod to_kernel b"
  by (cases a; cases b)
    (auto simp: Facade_mod_def Facade_binary_def Extended_mod_def Compact_mod_def checked_def
      to_kernel_demote to_kernel_simps)

text \<open>
  C7. For all integer values \<open>a\<close> and \<open>b\<close>, in either representation, with \<open>b\<close> not zero, the
  Facade's division and modulus return values \<open>q\<close> and \<open>r\<close> with \<open>a = q * b + r\<close>; \<open>q\<close> is the
  quotient rounded towards negative infinity, and \<open>r\<close> lies between zero and \<open>b\<close> on the side
  of \<open>b\<close>: it carries the sign of \<open>b\<close>.
\<close>

theorem floor_division_identity:
  assumes "to_kernel b \<noteq> 0"
  shows "\<exists>q r. Facade_div a b = Inr q \<and> Facade_mod a b = Inr r
     \<and> to_kernel a = to_kernel q * to_kernel b + to_kernel r
     \<and> to_kernel q = \<lfloor>real_of_int (to_kernel a) / real_of_int (to_kernel b)\<rfloor>
     \<and> (0 < to_kernel b \<longrightarrow> 0 \<le> to_kernel r \<and> to_kernel r < to_kernel b)
     \<and> (to_kernel b < 0 \<longrightarrow> to_kernel b < to_kernel r \<and> to_kernel r \<le> 0)"
proof -
  obtain q where q: "Facade_div a b = Inr q" "to_kernel q = to_kernel a div to_kernel b"
    using Facade_div_value [OF assms] by blast
  obtain r where r: "Facade_mod a b = Inr r" "to_kernel r = to_kernel a mod to_kernel b"
    using Facade_mod_value [OF assms] by blast
  have "to_kernel q = \<lfloor>real_of_int (to_kernel a) / real_of_int (to_kernel b)\<rfloor>"
    by (simp add: q floor_divide_of_int_eq)
  with q r show ?thesis
    by (auto simp: pos_mod_bound neg_mod_bound)
qed

theorem floor_division_identity_witness:
  "to_kernel (Compact 2) \<noteq> 0
   \<and> Facade_div (Compact (- 7)) (Compact 2) = Inr (Compact (- 4))
   \<and> Facade_mod (Compact (- 7)) (Compact 2) = Inr (Compact 1)
   \<and> (\<exists>q r. Facade_div (Compact (- 7)) (Compact 2) = Inr q
        \<and> Facade_mod (Compact (- 7)) (Compact 2) = Inr r
        \<and> to_kernel (Compact (- 7)) = to_kernel q * to_kernel (Compact 2) + to_kernel r
        \<and> to_kernel q
            = \<lfloor>real_of_int (to_kernel (Compact (- 7))) / real_of_int (to_kernel (Compact 2))\<rfloor>
        \<and> (0 < to_kernel (Compact 2) \<longrightarrow> 0 \<le> to_kernel r \<and> to_kernel r < to_kernel (Compact 2))
        \<and> (to_kernel (Compact 2) < 0 \<longrightarrow> to_kernel (Compact 2) < to_kernel r \<and> to_kernel r \<le> 0))"
proof -
  have nz: "to_kernel (Compact 2) \<noteq> 0"
    by (simp add: to_kernel_simps)
  have d: "Facade_div (Compact (- 7)) (Compact 2) = Inr (Compact (- 4))"
    by (simp add: Facade_div_def Facade_binary_def Compact_div_def checked_def in_word_range_def
        NAT_INT_MAX_def NAT_INT_MIN_def)
  have m: "Facade_mod (Compact (- 7)) (Compact 2) = Inr (Compact 1)"
    by (simp add: Facade_mod_def Facade_binary_def Compact_mod_def checked_def in_word_range_def
        NAT_INT_MAX_def NAT_INT_MIN_def)
  note t = floor_division_identity [OF nz, of "Compact (- 7)"]
  show ?thesis
    by (intro conjI nz d m t)
qed

end
